theory Spec2Isabelle
  imports Main
begin

section \<open>Data model (src/index.tsx, lines 36-52 and 110-126)\<close>

text \<open>
  The program is one React component, \<open>App\<close>. Its state variables (\<open>useState\<close>) are
  gathered in the record \<open>state\<close>; every handler becomes a function from the state it
  was called in to the state it leaves. JavaScript strings are modelled as \<open>string\<close>:
  a string is falsy exactly when it is empty.
\<close>

datatype Role = Y | X | Control | Mechanism | Hetero | FixedEffect

record VariableDef =
  name :: string
  label :: string
  role :: Role

text \<open>
  \<open>CodeSection.code\<close> is declared a string, but it receives \<open>response.text\<close>, which
  is a string or \<open>undefined\<close>: the field is an option, \<open>None\<close> standing for
  \<open>undefined\<close>.
\<close>

record CodeSection =
  title :: string
  code :: "string option"
  explanation :: string

text \<open>\<open>step\<close> has the type \<open>1 | 2 | 3\<close>: 1 is the topic form, 2 the variable review,
  3 the workbench.\<close>

datatype stage = TopicIntake | VariableReview | Workbench

text \<open>
  \<open>activeTab\<close> is a string in the source, but it only ever holds its initial value
  \<open>"basic"\<close> or the id of one of the five tab buttons (lines 615-621), and these five ids
  are exactly the keys of \<open>generatedContent\<close> (lines 124-126). The keys are a datatype
  and the store is a total function on them.
\<close>

datatype category = basic | benchmark | robust | endo | hetero

text \<open>The one \<open>alert\<close> of the program (line 260), and the state of the component.
  \<open>alerts\<close> collects the notices shown to the operator, \<open>consoleErrors\<close> counts the
  calls of \<open>console.error\<close>.\<close>

datatype notice = VariableSuggestionFailed

record state =
  apiKey :: "string option"
  step :: stage
  loading :: bool
  topic :: string
  field :: string
  controlCount :: int
  heteroCount :: int
  mechCount :: int
  feCount :: int
  variables :: "VariableDef list"
  activeTab :: category
  generatedContent :: "category \<Rightarrow> CodeSection list"
  alerts :: "notice list"
  consoleErrors :: nat

text \<open>The initial values of the \<open>useState\<close> calls. The key comes from the
  environment; the default field is a fixed label of the source whose text is not
  ASCII, so it is a parameter here.\<close>

definition init :: "string option \<Rightarrow> string \<Rightarrow> state" where
  "init key field0 =
     \<lparr>apiKey = key, step = TopicIntake, loading = False, topic = [], field = field0,
      controlCount = 4, heteroCount = 1, mechCount = 1, feCount = 2, variables = [],
      activeTab = basic, generatedContent = (\<lambda>_. []), alerts = [], consoleErrors = 0\<rparr>"

section \<open>Request construction\<close>

text \<open>
  Both requests are template literals: fixed text with interpolated values. The fixed
  text is Chinese prose; a prompt is kept as the list of its pieces, \<open>Lit k\<close> being the
  \<open>k\<close>-th fixed chunk of the template, and \<open>render\<close> gives the string once the chunks
  and the printing of numbers are supplied.
\<close>

datatype piece = Lit nat | Str string | Num int

type_synonym prompt = "piece list"

definition render :: "(nat \<Rightarrow> string) \<Rightarrow> (int \<Rightarrow> string) \<Rightarrow> prompt \<Rightarrow> string" where
  "render lit shw ps =
     concat (map (\<lambda>p. case p of Lit k \<Rightarrow> lit k | Str s \<Rightarrow> s | Num n \<Rightarrow> shw n) ps)"

text \<open>Lines 210-226: topic, field, and the four requested counts, in this order.\<close>

definition suggestion_prompt :: "state \<Rightarrow> prompt" where
  "suggestion_prompt st =
     [Lit 0, Str (topic st), Lit 1, Str (field st), Lit 2, Num (controlCount st),
      Lit 3, Num (mechCount st), Lit 4, Num (heteroCount st), Lit 5, Num (feCount st),
      Lit 6]"

text \<open>\<open>a?.name || d\<close> on the result of \<open>find\<close>: the default is taken when nothing was
  found and also when the name found is the empty string.\<close>

definition name_or :: "VariableDef option \<Rightarrow> string \<Rightarrow> string" where
  "name_or found d =
     (case found of None \<Rightarrow> d | Some v \<Rightarrow> if name v = [] then d else name v)"

text \<open>\<open>Array.prototype.join\<close>.\<close>

fun join :: "string \<Rightarrow> string list \<Rightarrow> string" where
  "join sep [] = []"
| "join sep [s] = s"
| "join sep (s # t # ts) = s @ sep @ join sep (t # ts)"

text \<open>Lines 271-276.\<close>

definition ref_y :: "VariableDef list \<Rightarrow> string" where
  "ref_y vars = name_or (find (\<lambda>v. role v = Y) vars) ''y''"

definition ref_x :: "VariableDef list \<Rightarrow> string" where
  "ref_x vars = name_or (find (\<lambda>v. role v = X) vars) ''x''"

definition ref_controls :: "VariableDef list \<Rightarrow> string" where
  "ref_controls vars = join '' '' (map name (filter (\<lambda>v. role v = Control) vars))"

definition ref_mechs :: "VariableDef list \<Rightarrow> string" where
  "ref_mechs vars = join '' '' (map name (filter (\<lambda>v. role v = Mechanism) vars))"

definition ref_heteros :: "VariableDef list \<Rightarrow> string" where
  "ref_heteros vars = join '' '' (map name (filter (\<lambda>v. role v = Hetero) vars))"

definition ref_fes :: "VariableDef list \<Rightarrow> string" where
  "ref_fes vars = join '' '' (map name (filter (\<lambda>v. role v = FixedEffect) vars))"

text \<open>
  Lines 278-303. The chunks, in English: 0 is the expert preamble up to "research
  topic:", 1 to 6 are the labels of the variable definitions ("- dependent variable
  (Y):", "- core explanatory variable (X):", "- control variables:", "- mechanism
  variables:", "- heterogeneity variables:", "- fixed-effect variables (Fixed
  Effects):"), 7 is "task: write the code for", 8 is " (", 9 runs from ")" through the
  requirements 1 to 4 up to "(absorb ", and 10 is the rest of the requirements.
  The fixed-effect names are interpolated twice.
\<close>

definition generation_prompt :: "state \<Rightarrow> string \<Rightarrow> string \<Rightarrow> prompt" where
  "generation_prompt st method subType =
     [Lit 0, Str (topic st),
      Lit 1, Str (ref_y (variables st)),
      Lit 2, Str (ref_x (variables st)),
      Lit 3, Str (ref_controls (variables st)),
      Lit 4, Str (ref_mechs (variables st)),
      Lit 5, Str (ref_heteros (variables st)),
      Lit 6, Str (ref_fes (variables st)),
      Lit 7, Str method, Lit 8, Str subType,
      Lit 9, Str (ref_fes (variables st)),
      Lit 10]"

section \<open>The variable-suggestion exchange (fetchVariables, lines 205-264)\<close>

text \<open>
  An \<open>async\<close> function runs in two parts: up to its \<open>await\<close> when it is called, and
  from the \<open>await\<close> on when the external call settles. The first part returns the
  request it dispatched, if any.
\<close>

definition fetchVariables :: "state \<Rightarrow> state \<times> prompt option" where
  "fetchVariables st =
     (if topic st = [] \<or> apiKey st = None \<or> apiKey st = Some [] then (st, None)
      else (st\<lparr>loading := True\<rparr>, Some (suggestion_prompt st)))"

text \<open>
  What the external call and \<open>JSON.parse(response.text || "{}")\<close> can come to:
  \<^item> \<open>Rejected\<close>: \<open>generateContent\<close> throws (transport error, error response);
  \<^item> \<open>NoText\<close>: the response has no text or an empty one, so \<open>"{}"\<close> is parsed and
    \<open>data\<close> is an object without properties;
  \<^item> \<open>Unparsable\<close>: \<open>JSON.parse\<close> throws, or yields \<open>null\<close> and the property read throws;
  \<^item> \<open>Json v\<close>: the text parses to a value whose \<open>variables\<close> property is absent or
    falsy (\<open>None\<close>) or an array of variable definitions (\<open>Some\<close>; an array is truthy
    also when it is empty).
\<close>

datatype suggestion_reply = Rejected | NoText | Unparsable | Json "VariableDef list option"

datatype js_error = Thrown

definition data_variables :: "suggestion_reply \<Rightarrow> js_error + VariableDef list option" where
  "data_variables reply =
     (case reply of
        Rejected \<Rightarrow> Inl Thrown
      | NoText \<Rightarrow> Inr None
      | Unparsable \<Rightarrow> Inl Thrown
      | Json v \<Rightarrow> Inr v)"

text \<open>Lines 253-263: the \<open>try\<close> body after the \<open>await\<close>, \<open>catch\<close> and \<open>finally\<close>.\<close>

definition fetchVariables_settle :: "state \<Rightarrow> suggestion_reply \<Rightarrow> state" where
  "fetchVariables_settle st reply =
     (let st1 =
        (case data_variables reply of
           Inl e \<Rightarrow> st\<lparr>alerts := alerts st @ [VariableSuggestionFailed],
                       consoleErrors := Suc (consoleErrors st)\<rparr>
         | Inr None \<Rightarrow> st
         | Inr (Some vs) \<Rightarrow> st\<lparr>variables := vs, step := VariableReview\<rparr>)
      in st1\<lparr>loading := False\<rparr>)"

section \<open>The code-generation exchange (generateStataCode, lines 267-329)\<close>

text \<open>What the second part of the call closes over: the method name and the tab that
  was active when the call was made, beside the request itself.\<close>

record generation_call =
  request :: prompt
  methodName :: string
  tab :: category

definition generateStataCode :: "state \<Rightarrow> string \<Rightarrow> string \<Rightarrow> state \<times> generation_call" where
  "generateStataCode st method subType =
     (st\<lparr>loading := True\<rparr>,
      \<lparr>request = generation_prompt st method subType, methodName = method,
       tab = activeTab st\<rparr>)"

datatype generation_reply = GenRejected | GenResolved "string option"

definition newSection :: "string \<Rightarrow> string option \<Rightarrow> CodeSection" where
  "newSection method returned =
     \<lparr>title = method, code = returned,
      explanation = ''Generated code for '' @ method @ ''.''\<rparr>"

text \<open>Lines 311-328. The updater of \<open>setGeneratedContent\<close> reads the store of the
  moment the call settles, and the tab of the moment the call was made.\<close>

definition generateStataCode_settle :: "state \<Rightarrow> generation_call \<Rightarrow> generation_reply \<Rightarrow> state" where
  "generateStataCode_settle st call reply =
     (let st1 =
        (case reply of
           GenRejected \<Rightarrow> st\<lparr>consoleErrors := Suc (consoleErrors st)\<rparr>
         | GenResolved returned \<Rightarrow>
             st\<lparr>generatedContent := (generatedContent st)
                  (tab call := newSection (methodName call) returned
                               # generatedContent st (tab call))\<rparr>)
      in st1\<lparr>loading := False\<rparr>)"

section \<open>Editing the taxonomy (lines 511-547)\<close>

text \<open>
  The review form lists, role by role, the variables of that role
  (\<open>variables.filter\<close>), and the handler of an input finds its variable \<open>v\<close> again in a
  copy of \<open>variables\<close> by object identity (\<open>item === v\<close>). The elements of
  \<open>variables\<close> are pairwise different objects (\<open>JSON.parse\<close> makes one per array
  element), so the identity of an object is modelled by its position:
  \<open>enumerate 0 vars\<close> pairs every object with its identity. \<open>findIndex\<close> returns -1
  when nothing matches; reading \<open>newVars[-1].name\<close> then throws and the state is not
  set.
\<close>

fun findIndex :: "('a \<Rightarrow> bool) \<Rightarrow> 'a list \<Rightarrow> nat option" where
  "findIndex P [] = None"
| "findIndex P (a # as) =
     (if P a then Some 0 else map_option Suc (findIndex P as))"

definition roleVars :: "Role \<Rightarrow> VariableDef list \<Rightarrow> (nat \<times> VariableDef) list" where
  "roleVars r vars = filter (\<lambda>item. role (snd item) = r) (enumerate 0 vars)"

definition edit_variable ::
    "(VariableDef \<Rightarrow> VariableDef) \<Rightarrow> Role \<Rightarrow> nat \<Rightarrow> VariableDef list \<Rightarrow> VariableDef list" where
  "edit_variable write r idx vars =
     (if idx < length (roleVars r vars) then
        (let v = roleVars r vars ! idx in
         case findIndex (\<lambda>item. fst item = fst v) (enumerate 0 vars) of
           None \<Rightarrow> vars
         | Some index \<Rightarrow> vars[index := write (vars ! index)])
      else vars)"

definition edit_name :: "Role \<Rightarrow> nat \<Rightarrow> string \<Rightarrow> VariableDef list \<Rightarrow> VariableDef list" where
  "edit_name r idx s vars = edit_variable (\<lambda>v. v\<lparr>name := s\<rparr>) r idx vars"

definition edit_label :: "Role \<Rightarrow> nat \<Rightarrow> string \<Rightarrow> VariableDef list \<Rightarrow> VariableDef list" where
  "edit_label r idx s vars = edit_variable (\<lambda>v. v\<lparr>label := s\<rparr>) r idx vars"

section \<open>The interface: which handler is offered in which step\<close>

text \<open>
  The component renders one of three screens, by \<open>step\<close>. Besides the state of the
  component the system holds the external calls that have not settled yet. An event
  whose control is not on the screen, or is disabled, leaves the system as it is.
  The method buttons call \<open>generateStataCode\<close> with the name and command of a catalog
  entry (lines 129-200, 642-645); the event carries the two strings.
\<close>

record system =
  app :: state
  pendingSuggestions :: nat
  pendingGenerations :: "generation_call list"

datatype event =
    SetTopic string
  | SetField string
  | SetControlCount int
  | SetFeCount int
  | SetMechCount int
  | SetHeteroCount int
  | ClickFetch
  | SuggestionSettles suggestion_reply
  | EditName Role nat string
  | EditLabel Role nat string
  | ClickReturn
  | ClickConfirm
  | SetActiveTab category
  | ClickMethod string string
  | GenerationSettles nat generation_reply

text \<open>Line 468: \<open>disabled={!topic || loading}\<close>.\<close>

definition fetch_disabled :: "state \<Rightarrow> bool" where
  "fetch_disabled st = (topic st = [] \<or> loading st)"

definition on_step :: "stage \<Rightarrow> system \<Rightarrow> (state \<Rightarrow> state) \<Rightarrow> system" where
  "on_step g s f = (if step (app s) = g then s\<lparr>app := f (app s)\<rparr> else s)"

fun fire :: "system \<Rightarrow> event \<Rightarrow> system" where
  "fire s (SetTopic t) = on_step TopicIntake s (\<lambda>st. st\<lparr>topic := t\<rparr>)"
| "fire s (SetField f) = on_step TopicIntake s (\<lambda>st. st\<lparr>field := f\<rparr>)"
| "fire s (SetControlCount n) = on_step TopicIntake s (\<lambda>st. st\<lparr>controlCount := n\<rparr>)"
| "fire s (SetFeCount n) = on_step TopicIntake s (\<lambda>st. st\<lparr>feCount := n\<rparr>)"
| "fire s (SetMechCount n) = on_step TopicIntake s (\<lambda>st. st\<lparr>mechCount := n\<rparr>)"
| "fire s (SetHeteroCount n) = on_step TopicIntake s (\<lambda>st. st\<lparr>heteroCount := n\<rparr>)"
| "fire s ClickFetch =
     (if step (app s) = TopicIntake \<and> \<not> fetch_disabled (app s) then
        (case fetchVariables (app s) of
           (st', None) \<Rightarrow> s\<lparr>app := st'\<rparr>
         | (st', Some req) \<Rightarrow>
             s\<lparr>app := st', pendingSuggestions := Suc (pendingSuggestions s)\<rparr>)
      else s)"
| "fire s (SuggestionSettles reply) =
     (if 0 < pendingSuggestions s then
        s\<lparr>app := fetchVariables_settle (app s) reply,
          pendingSuggestions := pendingSuggestions s - 1\<rparr>
      else s)"
| "fire s (EditName r idx t) =
     on_step VariableReview s (\<lambda>st. st\<lparr>variables := edit_name r idx t (variables st)\<rparr>)"
| "fire s (EditLabel r idx t) =
     on_step VariableReview s (\<lambda>st. st\<lparr>variables := edit_label r idx t (variables st)\<rparr>)"
| "fire s ClickReturn = on_step VariableReview s (\<lambda>st. st\<lparr>step := TopicIntake\<rparr>)"
| "fire s ClickConfirm = on_step VariableReview s (\<lambda>st. st\<lparr>step := Workbench\<rparr>)"
| "fire s (SetActiveTab c) = on_step Workbench s (\<lambda>st. st\<lparr>activeTab := c\<rparr>)"
| "fire s (ClickMethod method subType) =
     (if step (app s) = Workbench then
        (case generateStataCode (app s) method subType of
           (st', call) \<Rightarrow>
             s\<lparr>app := st', pendingGenerations := pendingGenerations s @ [call]\<rparr>)
      else s)"
| "fire s (GenerationSettles i reply) =
     (if i < length (pendingGenerations s) then
        s\<lparr>app := generateStataCode_settle (app s) (pendingGenerations s ! i) reply,
          pendingGenerations := take i (pendingGenerations s) @ drop (Suc i) (pendingGenerations s)\<rparr>
      else s)"

definition start :: "string option \<Rightarrow> string \<Rightarrow> system" where
  "start key field0 = \<lparr>app = init key field0, pendingSuggestions = 0, pendingGenerations = []\<rparr>"

definition run :: "string option \<Rightarrow> string \<Rightarrow> event list \<Rightarrow> system" where
  "run key field0 es = foldl fire (start key field0) es"

section \<open>The words of the specification\<close>

text \<open>
  Two definitions written from the specification, to compare the request builder
  with: "the name of the first variable of the role, or the literal default if none
  exists", and "the names joined by single spaces, the empty string when there is
  none".
\<close>

definition spec_first_name :: "Role \<Rightarrow> string \<Rightarrow> VariableDef list \<Rightarrow> string" where
  "spec_first_name r d vars =
     (case filter (\<lambda>v. role v = r) vars of [] \<Rightarrow> d | v # _ \<Rightarrow> name v)"

definition spec_space_joined :: "Role \<Rightarrow> VariableDef list \<Rightarrow> string" where
  "spec_space_joined r vars =
     (case map name (filter (\<lambda>v. role v = r) vars) of
        [] \<Rightarrow> []
      | n # ns \<Rightarrow> n @ concat (map (\<lambda>m. CHR '' '' # m) ns))"

text \<open>The internal state the specification names: stage, variables, topic, field,
  role configuration and the store of every category.\<close>

definition internal ::
    "state \<Rightarrow> stage \<times> VariableDef list \<times> string \<times> string \<times> (int \<times> int \<times> int \<times> int)
       \<times> (category \<Rightarrow> CodeSection list)" where
  "internal st =
     (step st, variables st, topic st, field st,
      (controlCount st, feCount st, mechCount st, heteroCount st),
      generatedContent st)"

section \<open>The empty topic\<close>

text \<open>
  C9. Calling \<open>fetchVariables\<close> with an empty topic dispatches no external call and
  changes nothing: the state returned is the state given, so the step is still
  \<open>TopicIntake\<close> when it was and the variables are the same; and the button, which
  is disabled then, leaves the whole system as it is.
\<close>

theorem empty_topic_no_call:
  "topic (app s) = [] \<Longrightarrow>
     fetchVariables (app s) = (app s, None) \<and> fire s ClickFetch = s"
  by (simp add: fetchVariables_def fetch_disabled_def)

theorem empty_topic_no_call_witness:
  "topic (app (start (Some ''k'') ''f'')) = [] \<and>
   fetchVariables (app (start (Some ''k'') ''f'')) = (app (start (Some ''k'') ''f''), None) \<and>
   fire (start (Some ''k'') ''f'') ClickFetch = start (Some ''k'') ''f''"
  using empty_topic_no_call [of "start (Some ''k'') ''f''"]
  by (simp add: start_def init_def)

section \<open>The canonical references of a generation request\<close>

lemma join_space:
  "join '' '' (n # ns) = n @ concat (map (\<lambda>m. CHR '' '' # m) ns)"
  by (induction ns arbitrary: n) auto

lemma find_filter:
  "find P xs = (case filter P xs of [] \<Rightarrow> None | v # _ \<Rightarrow> Some v)"
  by (induction xs) auto

text \<open>
  C6, as stated, fails: when the first Y variable has the empty name (the review form
  lets the operator clear the input, which the run below does), the request does not
  carry that name, as the words of the claim have it, but the default \<open>"y"\<close>.
\<close>

theorem first_name_counterexample:
  "variables (app (run (Some ''k'') ''f''
       [SetTopic ''t'', ClickFetch,
        SuggestionSettles (Json (Some [\<lparr>name = ''co2'', label = ''output'', role = Y\<rparr>])),
        EditName Y 0 []])) = [\<lparr>name = [], label = ''output'', role = Y\<rparr>] \<and>
   ref_y [\<lparr>name = [], label = ''output'', role = Y\<rparr>] = ''y'' \<and>
   spec_first_name Y ''y'' [\<lparr>name = [], label = ''output'', role = Y\<rparr>] = [] \<and>
   ref_y [\<lparr>name = [], label = ''output'', role = Y\<rparr>] \<noteq>
     spec_first_name Y ''y'' [\<lparr>name = [], label = ''output'', role = Y\<rparr>]"
  by (simp add: ref_y_def name_or_def spec_first_name_def run_def start_def init_def
        on_step_def fetch_disabled_def fetchVariables_def fetchVariables_settle_def
        data_variables_def edit_name_def edit_variable_def roleVars_def)

text \<open>
  C6, amended. For every taxonomy, \<open>y\<close> is the name of the first Y variable when there
  is one and its name is not empty, and the literal \<open>"y"\<close> otherwise; \<open>x\<close> likewise with
  \<open>"x"\<close>; controls, mechanisms, heteros and fixed effects are the names of the role
  joined by single spaces in taxonomy order, the empty string for a role without
  members. The request embeds, in this order, the topic, these six references, the
  method name and hint, and the fixed effects once more; with fixed-effect variables
  named year and city the rendered payload has \<open>"year city"\<close> right after the label
  of the fixed-effects slot (chunk 6).
\<close>

theorem canonical_references:
  "ref_y vars = (let n = spec_first_name Y ''y'' vars in if n = [] then ''y'' else n) \<and>
   ref_x vars = (let n = spec_first_name X ''x'' vars in if n = [] then ''x'' else n) \<and>
   ref_controls vars = spec_space_joined Control vars \<and>
   ref_mechs vars = spec_space_joined Mechanism vars \<and>
   ref_heteros vars = spec_space_joined Hetero vars \<and>
   ref_fes vars = spec_space_joined FixedEffect vars \<and>
   [s. Str s \<leftarrow> generation_prompt st method subType] =
     [topic st, ref_y (variables st), ref_x (variables st), ref_controls (variables st),
      ref_mechs (variables st), ref_heteros (variables st), ref_fes (variables st),
      method, subType, ref_fes (variables st)] \<and>
   (map name (filter (\<lambda>v. role v = FixedEffect) (variables st)) = [''year'', ''city''] \<longrightarrow>
      (\<exists>pre post. render lit shw (generation_prompt st method subType) =
                     pre @ lit 6 @ ''year city'' @ post))"
proof -
  have y: "ref_y vars = (let n = spec_first_name Y ''y'' vars in if n = [] then ''y'' else n)"
    by (simp add: ref_y_def name_or_def spec_first_name_def find_filter split: list.splits)
  have x: "ref_x vars = (let n = spec_first_name X ''x'' vars in if n = [] then ''x'' else n)"
    by (simp add: ref_x_def name_or_def spec_first_name_def find_filter split: list.splits)
  have j: "\<And>r. join '' '' (map name (filter (\<lambda>v. role v = r) vars)) = spec_space_joined r vars"
    by (simp add: spec_space_joined_def join_space split: list.splits)
  have p: "[s. Str s \<leftarrow> generation_prompt st method subType] =
     [topic st, ref_y (variables st), ref_x (variables st), ref_controls (variables st),
      ref_mechs (variables st), ref_heteros (variables st), ref_fes (variables st),
      method, subType, ref_fes (variables st)]"
    by (simp add: generation_prompt_def)
  have s: "\<exists>pre post. render lit shw (generation_prompt st method subType) =
                     pre @ lit 6 @ ''year city'' @ post"
    if fe: "map name (filter (\<lambda>v. role v = FixedEffect) (variables st)) = [''year'', ''city'']"
  proof -
    have f: "ref_fes (variables st) = ''year city''"
      by (simp add: ref_fes_def fe)
    let ?P = "generation_prompt st method subType"
    have "render lit shw ?P =
            render lit shw (take 12 ?P) @ lit 6 @ ''year city'' @ render lit shw (drop 14 ?P)"
      by (simp add: generation_prompt_def render_def f)
    then show ?thesis by blast
  qed
  show ?thesis
    using y x j p s by (simp add: ref_controls_def ref_mechs_def ref_heteros_def ref_fes_def)
qed

theorem canonical_references_witness:
  "ref_y [\<lparr>name = ''co2'', label = ''a'', role = Y\<rparr>,
          \<lparr>name = ''year'', label = ''b'', role = FixedEffect\<rparr>,
          \<lparr>name = ''city'', label = ''c'', role = FixedEffect\<rparr>] = ''co2'' \<and>
   ref_fes [\<lparr>name = ''co2'', label = ''a'', role = Y\<rparr>,
            \<lparr>name = ''year'', label = ''b'', role = FixedEffect\<rparr>,
            \<lparr>name = ''city'', label = ''c'', role = FixedEffect\<rparr>] = ''year city'' \<and>
   ref_controls [\<lparr>name = ''co2'', label = ''a'', role = Y\<rparr>,
                 \<lparr>name = ''year'', label = ''b'', role = FixedEffect\<rparr>,
                 \<lparr>name = ''city'', label = ''c'', role = FixedEffect\<rparr>] = [] \<and>
   (\<exists>pre post. render (\<lambda>k. ''#'') (\<lambda>n. ''0'')
       (generation_prompt
          ((init (Some ''k'') ''f'')\<lparr>variables :=
             [\<lparr>name = ''co2'', label = ''a'', role = Y\<rparr>,
              \<lparr>name = ''year'', label = ''b'', role = FixedEffect\<rparr>,
              \<lparr>name = ''city'', label = ''c'', role = FixedEffect\<rparr>]\<rparr>) ''m'' ''c'') =
     pre @ ''#'' @ ''year city'' @ post)"
  using canonical_references [of
     "[\<lparr>name = ''co2'', label = ''a'', role = Y\<rparr>,
       \<lparr>name = ''year'', label = ''b'', role = FixedEffect\<rparr>,
       \<lparr>name = ''city'', label = ''c'', role = FixedEffect\<rparr>]"
     "(init (Some ''k'') ''f'')\<lparr>variables :=
             [\<lparr>name = ''co2'', label = ''a'', role = Y\<rparr>,
              \<lparr>name = ''year'', label = ''b'', role = FixedEffect\<rparr>,
              \<lparr>name = ''city'', label = ''c'', role = FixedEffect\<rparr>]\<rparr>"
     "''m''" "''c''" "\<lambda>k. ''#''" "\<lambda>n. ''0''"]
  by (simp add: spec_first_name_def spec_space_joined_def init_def)

section \<open>Renaming and relabelling a variable\<close>

lemma findIndex_enumerate:
  "findIndex (\<lambda>item. fst item = i) (enumerate n xs) =
     (if n \<le> i \<and> i < n + length xs then Some (i - n) else None)"
  by (induction xs arbitrary: n) (auto simp: Suc_diff_le)

lemma enumerate_map_nth:
  "enumerate 0 xs = map (\<lambda>j. (j, xs ! j)) [0..<length xs]"
  by (rule nth_equalityI) (simp_all add: nth_enumerate_eq)

lemma roleVars_positions:
  "roleVars r vars =
     map (\<lambda>j. (j, vars ! j)) (filter (\<lambda>j. role (vars ! j) = r) [0..<length vars])"
  by (simp add: roleVars_def enumerate_map_nth filter_map comp_def)

lemma roleVars_entry:
  assumes "idx < length (roleVars r vars)"
  shows "fst (roleVars r vars ! idx) < length vars"
    and "snd (roleVars r vars ! idx) = vars ! fst (roleVars r vars ! idx)"
    and "role (vars ! fst (roleVars r vars ! idx)) = r"
proof -
  have "roleVars r vars ! idx \<in> set (roleVars r vars)"
    using assms by simp
  then have m: "roleVars r vars ! idx \<in> set (enumerate 0 vars)"
    and p: "role (snd (roleVars r vars ! idx)) = r"
    by (simp_all add: roleVars_def)
  from m show a: "fst (roleVars r vars ! idx) < length vars"
    and b: "snd (roleVars r vars ! idx) = vars ! fst (roleVars r vars ! idx)"
    by (simp_all add: in_set_enumerate_eq)
  from p b show "role (vars ! fst (roleVars r vars ! idx)) = r" by simp
qed

lemma edit_variable_update:
  assumes "idx < length (roleVars r vars)"
  shows "edit_variable write r idx vars =
           vars[fst (roleVars r vars ! idx) := write (vars ! fst (roleVars r vars ! idx))]"
  using assms roleVars_entry(1) [OF assms]
  by (simp add: edit_variable_def Let_def findIndex_enumerate)

lemma roleVars_update:
  assumes i: "i < length vars" and w: "role w = role (vars ! i)"
  shows "roleVars r' (vars[i := w]) =
           map (\<lambda>j. (j, vars[i := w] ! j)) (filter (\<lambda>j. role (vars ! j) = r') [0..<length vars])"
proof -
  have "filter (\<lambda>j. role (vars[i := w] ! j) = r') [0..<length vars] =
        filter (\<lambda>j. role (vars ! j) = r') [0..<length vars]"
    using i w by (intro filter_cong refl) (auto simp: nth_list_update)
  then show ?thesis
    by (simp add: roleVars_positions)
qed

lemma roleVars_update_other:
  assumes "i < length vars" and "role w = role (vars ! i)" and "role (vars ! i) \<noteq> r'"
  shows "roleVars r' (vars[i := w]) = roleVars r' vars"
  using assms
  by (auto simp add: roleVars_update [OF assms(1,2)] roleVars_positions [of r' vars]
        nth_list_update)

lemma roleVars_update_same:
  assumes idx: "idx < length (roleVars r vars)"
    and i: "i = fst (roleVars r vars ! idx)" and w: "role w = r"
  shows "roleVars r (vars[i := w]) = (roleVars r vars)[idx := (i, w)]"
proof -
  let ?js = "filter (\<lambda>j. role (vars ! j) = r) [0..<length vars]"
  have len: "idx < length ?js" using idx by (simp add: roleVars_positions)
  have ji: "?js ! idx = i" using len i by (simp add: roleVars_positions)
  have d: "distinct ?js" by simp
  have il: "i < length vars" using roleVars_entry(1) [OF idx] i by simp
  have ri: "role (vars ! i) = r" using roleVars_entry(3) [OF idx] i by simp
  have "map (\<lambda>j. (j, vars[i := w] ! j)) ?js = (map (\<lambda>j. (j, vars ! j)) ?js)[idx := (i, w)]"
  proof (rule nth_equalityI)
    show "length (map (\<lambda>j. (j, vars[i := w] ! j)) ?js) =
          length ((map (\<lambda>j. (j, vars ! j)) ?js)[idx := (i, w)])" by simp
  next
    fix k assume "k < length (map (\<lambda>j. (j, vars[i := w] ! j)) ?js)"
    then have k: "k < length ?js" by simp
    show "map (\<lambda>j. (j, vars[i := w] ! j)) ?js ! k =
          (map (\<lambda>j. (j, vars ! j)) ?js)[idx := (i, w)] ! k"
    proof (cases "k = idx")
      case True
      then show ?thesis using len ji il by simp
    next
      case False
      then have "?js ! k \<noteq> i"
        using d k len ji nth_eq_iff_index_eq by blast
      then show ?thesis using k False by (simp add: nth_list_update)
    qed
  qed
  then show ?thesis
    using il w ri by (simp add: roleVars_update [of i vars w r] roleVars_positions [of r vars])
qed

text \<open>What an edit that keeps the role does, whatever it writes.\<close>

lemma edit_variable_in_place:
  assumes idx: "idx < length (roleVars r vars)"
    and keeps: "\<And>v. role (write v) = role v"
  shows "edit_variable write r idx vars =
           vars[fst (roleVars r vars ! idx) := write (snd (roleVars r vars ! idx))]"
    and "map role (edit_variable write r idx vars) = map role vars"
    and "roleVars r (edit_variable write r idx vars) =
           (roleVars r vars)[idx := (fst (roleVars r vars ! idx),
                                      write (snd (roleVars r vars ! idx)))]"
    and "r' \<noteq> r \<Longrightarrow> roleVars r' (edit_variable write r idx vars) = roleVars r' vars"
proof -
  let ?i = "fst (roleVars r vars ! idx)"
  note e = roleVars_entry [OF idx]
  show u: "edit_variable write r idx vars = vars[?i := write (snd (roleVars r vars ! idx))]"
    by (simp add: edit_variable_update [OF idx] e(2))
  show "map role (edit_variable write r idx vars) = map role vars"
    using e(1) by (simp add: u e(2) map_update keeps list_update_same_conv)
  have w: "role (write (vars ! ?i)) = r"
    by (simp add: keeps e(3))
  show "roleVars r (edit_variable write r idx vars) =
          (roleVars r vars)[idx := (?i, write (snd (roleVars r vars ! idx)))]"
    using roleVars_update_same [OF idx refl w] by (simp add: u e(2))
  show "roleVars r' (edit_variable write r idx vars) = roleVars r' vars" if "r' \<noteq> r"
    using roleVars_update_other [of ?i vars "write (vars ! ?i)" r'] e(1) e(3) that
    by (simp add: u e(2) keeps)
qed

text \<open>
  C8. Renaming or relabelling the variable shown at place \<open>idx\<close> of the bucket of role
  \<open>r\<close> is an update in place: the sequence changes at the position of that variable
  only, where the variable gets the new name (or label) and keeps its other fields;
  the roles along the sequence are the same; the bucket of \<open>r\<close> holds the edited
  variable at the same place \<open>idx\<close> and is otherwise the same; every other bucket is
  the same.
\<close>

theorem rename_relabel_in_place:
  "idx < length (roleVars r vars) \<Longrightarrow>
     edit_name r idx s vars =
       vars[fst (roleVars r vars ! idx) := (snd (roleVars r vars ! idx))\<lparr>name := s\<rparr>] \<and>
     edit_label r idx s vars =
       vars[fst (roleVars r vars ! idx) := (snd (roleVars r vars ! idx))\<lparr>label := s\<rparr>] \<and>
     map role (edit_name r idx s vars) = map role vars \<and>
     map role (edit_label r idx s vars) = map role vars \<and>
     roleVars r (edit_name r idx s vars) =
       (roleVars r vars)[idx := (fst (roleVars r vars ! idx),
                                  (snd (roleVars r vars ! idx))\<lparr>name := s\<rparr>)] \<and>
     roleVars r (edit_label r idx s vars) =
       (roleVars r vars)[idx := (fst (roleVars r vars ! idx),
                                  (snd (roleVars r vars ! idx))\<lparr>label := s\<rparr>)] \<and>
     (\<forall>r'. r' \<noteq> r \<longrightarrow>
        roleVars r' (edit_name r idx s vars) = roleVars r' vars \<and>
        roleVars r' (edit_label r idx s vars) = roleVars r' vars)"
  unfolding edit_name_def edit_label_def
  using edit_variable_in_place [of idx r vars "\<lambda>v. v\<lparr>name := s\<rparr>"]
    edit_variable_in_place [of idx r vars "\<lambda>v. v\<lparr>label := s\<rparr>"]
  by simp

theorem rename_relabel_in_place_witness:
  "1 < length (roleVars Control
         [\<lparr>name = ''co2'', label = ''a'', role = Y\<rparr>,
          \<lparr>name = ''gdp'', label = ''b'', role = Control\<rparr>,
          \<lparr>name = ''dig'', label = ''c'', role = X\<rparr>,
          \<lparr>name = ''pop'', label = ''d'', role = Control\<rparr>]) \<and>
   edit_name Control 1 ''people''
         [\<lparr>name = ''co2'', label = ''a'', role = Y\<rparr>,
          \<lparr>name = ''gdp'', label = ''b'', role = Control\<rparr>,
          \<lparr>name = ''dig'', label = ''c'', role = X\<rparr>,
          \<lparr>name = ''pop'', label = ''d'', role = Control\<rparr>] =
         [\<lparr>name = ''co2'', label = ''a'', role = Y\<rparr>,
          \<lparr>name = ''gdp'', label = ''b'', role = Control\<rparr>,
          \<lparr>name = ''dig'', label = ''c'', role = X\<rparr>,
          \<lparr>name = ''people'', label = ''d'', role = Control\<rparr>] \<and>
   roleVars Control (edit_label Control 1 ''people''
         [\<lparr>name = ''co2'', label = ''a'', role = Y\<rparr>,
          \<lparr>name = ''gdp'', label = ''b'', role = Control\<rparr>,
          \<lparr>name = ''dig'', label = ''c'', role = X\<rparr>,
          \<lparr>name = ''pop'', label = ''d'', role = Control\<rparr>]) =
         [(1, \<lparr>name = ''gdp'', label = ''b'', role = Control\<rparr>),
          (3, \<lparr>name = ''pop'', label = ''people'', role = Control\<rparr>)]"
  using rename_relabel_in_place [of 1 Control
         "[\<lparr>name = ''co2'', label = ''a'', role = Y\<rparr>,
          \<lparr>name = ''gdp'', label = ''b'', role = Control\<rparr>,
          \<lparr>name = ''dig'', label = ''c'', role = X\<rparr>,
          \<lparr>name = ''pop'', label = ''d'', role = Control\<rparr>]" "''people''"]
  by (simp add: roleVars_def)

section \<open>The stage after a variable-suggestion exchange\<close>

lemma run_snoc: "run key field0 (es @ [e]) = fire (run key field0 es) e"
  by (simp add: run_def)

text \<open>
  C1, as stated, fails: a reply whose variable list is present but empty advances the
  stage. An array is truthy in JavaScript also when it is empty, so the guard
  \<open>if (data.variables)\<close> lets it through.
\<close>

theorem empty_list_advances_counterexample:
  "step (app (run (Some ''k'') ''f''
       [SetTopic ''t'', ClickFetch, SuggestionSettles (Json (Some []))])) = VariableReview \<and>
   variables (app (run (Some ''k'') ''f''
       [SetTopic ''t'', ClickFetch, SuggestionSettles (Json (Some []))])) = []"
  by (simp add: run_def start_def init_def on_step_def fetch_disabled_def fetchVariables_def
        fetchVariables_settle_def data_variables_def)

text \<open>
  C1, amended. For every variable-suggestion exchange started in stage
  \<open>TopicIntake\<close>, the stage is still \<open>TopicIntake\<close> while the call is outstanding, and
  when it settles the workflow moves to \<open>VariableReview\<close> exactly when the reply
  parses to data with a variable list, empty or not, which becomes the taxonomy; on a
  rejected call, a missing or empty text, an unparsable text or data without a
  variable list the stage stays \<open>TopicIntake\<close> and the variables are unchanged.
\<close>

theorem suggestion_advances_on_variable_list:
  "step st = TopicIntake \<Longrightarrow>
     step (fst (fetchVariables st)) = TopicIntake \<and>
     step (fetchVariables_settle (fst (fetchVariables st)) reply) =
       (case reply of Json (Some vs) \<Rightarrow> VariableReview | _ \<Rightarrow> TopicIntake) \<and>
     variables (fetchVariables_settle (fst (fetchVariables st)) reply) =
       (case reply of Json (Some vs) \<Rightarrow> vs | _ \<Rightarrow> variables st)"
  by (simp add: fetchVariables_def fetchVariables_settle_def data_variables_def
        split: suggestion_reply.splits option.splits)

theorem suggestion_advances_on_variable_list_witness:
  "step ((init (Some ''k'') ''f'')\<lparr>topic := ''t''\<rparr>) = TopicIntake \<and>
   step (fetchVariables_settle (fst (fetchVariables ((init (Some ''k'') ''f'')\<lparr>topic := ''t''\<rparr>)))
           (Json (Some [\<lparr>name = ''co2'', label = ''a'', role = Y\<rparr>]))) = VariableReview \<and>
   variables (fetchVariables_settle (fst (fetchVariables ((init (Some ''k'') ''f'')\<lparr>topic := ''t''\<rparr>)))
           (Json (Some [\<lparr>name = ''co2'', label = ''a'', role = Y\<rparr>]))) =
     [\<lparr>name = ''co2'', label = ''a'', role = Y\<rparr>]"
  using suggestion_advances_on_variable_list
    [of "(init (Some ''k'') ''f'')\<lparr>topic := ''t''\<rparr>"
        "Json (Some [\<lparr>name = ''co2'', label = ''a'', role = Y\<rparr>])"]
  by (simp add: init_def)

section \<open>The variables while the stage is TopicIntake\<close>

lemma fire_keeps_empty_in_intake:
  assumes "e \<noteq> ClickReturn"
    and "step (app s) = TopicIntake \<longrightarrow> variables (app s) = []"
  shows "step (app (fire s e)) = TopicIntake \<longrightarrow> variables (app (fire s e)) = []"
  using assms
  by (cases e)
     (auto simp: on_step_def fetchVariables_def fetchVariables_settle_def data_variables_def
        generateStataCode_def generateStataCode_settle_def
        split: suggestion_reply.splits option.splits generation_reply.splits)

lemma run_keeps_empty_in_intake:
  "ClickReturn \<notin> set es \<Longrightarrow> step (app (run key field0 es)) = TopicIntake \<Longrightarrow>
     variables (app (run key field0 es)) = []"
proof (induction es rule: rev_induct)
  case Nil
  then show ?case by (simp add: run_def start_def init_def)
next
  case (snoc e es)
  then have "step (app (run key field0 es)) = TopicIntake \<longrightarrow>
             variables (app (run key field0 es)) = []"
    by simp
  moreover have "e \<noteq> ClickReturn" using snoc.prems(1) by auto
  ultimately show ?case
    using fire_keeps_empty_in_intake [of e "run key field0 es"] snoc.prems(2)
    by (simp add: run_snoc)
qed

text \<open>
  C2, as stated, fails: after a successful suggestion the return button brings the
  stage back to \<open>TopicIntake\<close> with the taxonomy retained.
\<close>

theorem return_retains_counterexample:
  "step (app (run (Some ''k'') ''f''
       [SetTopic ''t'', ClickFetch,
        SuggestionSettles (Json (Some [\<lparr>name = ''co2'', label = ''a'', role = Y\<rparr>])),
        ClickReturn])) = TopicIntake \<and>
   variables (app (run (Some ''k'') ''f''
       [SetTopic ''t'', ClickFetch,
        SuggestionSettles (Json (Some [\<lparr>name = ''co2'', label = ''a'', role = Y\<rparr>])),
        ClickReturn])) \<noteq> []"
  by (simp add: run_def start_def init_def on_step_def fetch_disabled_def fetchVariables_def
        fetchVariables_settle_def data_variables_def)

text \<open>
  C2, amended. In every state reached without the return action, stage
  \<open>TopicIntake\<close> implies that the variables sequence is empty. The return action from
  \<open>VariableReview\<close> sets the stage to \<open>TopicIntake\<close> and retains the taxonomy as it is,
  so after it the stage \<open>TopicIntake\<close> holds whatever variables the review held.
\<close>

theorem intake_empty_until_return:
  "(ClickReturn \<notin> set es \<longrightarrow> step (app (run key field0 es)) = TopicIntake \<longrightarrow>
      variables (app (run key field0 es)) = []) \<and>
   variables (app (fire s ClickReturn)) = variables (app s) \<and>
   (step (app s) = VariableReview \<longrightarrow> step (app (fire s ClickReturn)) = TopicIntake)"
  using run_keeps_empty_in_intake [of es key field0]
  by (simp add: on_step_def)

theorem intake_empty_until_return_witness:
  "ClickReturn \<notin> set [SetTopic ''t'', ClickFetch, SuggestionSettles Rejected] \<and>
   step (app (run (Some ''k'') ''f'' [SetTopic ''t'', ClickFetch, SuggestionSettles Rejected]))
     = TopicIntake \<and>
   variables (app (run (Some ''k'') ''f'' [SetTopic ''t'', ClickFetch, SuggestionSettles Rejected]))
     = [] \<and>
   step (app (run (Some ''k'') ''f''
       [SetTopic ''t'', ClickFetch,
        SuggestionSettles (Json (Some [\<lparr>name = ''co2'', label = ''a'', role = Y\<rparr>]))]))
     = VariableReview \<and>
   step (app (fire (run (Some ''k'') ''f''
       [SetTopic ''t'', ClickFetch,
        SuggestionSettles (Json (Some [\<lparr>name = ''co2'', label = ''a'', role = Y\<rparr>]))])
       ClickReturn)) = TopicIntake \<and>
   variables (app (fire (run (Some ''k'') ''f''
       [SetTopic ''t'', ClickFetch,
        SuggestionSettles (Json (Some [\<lparr>name = ''co2'', label = ''a'', role = Y\<rparr>]))])
       ClickReturn)) = [\<lparr>name = ''co2'', label = ''a'', role = Y\<rparr>]"
  using intake_empty_until_return
    [of "[SetTopic ''t'', ClickFetch, SuggestionSettles Rejected]" "Some ''k''" "''f''"
        "run (Some ''k'') ''f''
           [SetTopic ''t'', ClickFetch,
            SuggestionSettles (Json (Some [\<lparr>name = ''co2'', label = ''a'', role = Y\<rparr>]))]"]
  by (simp add: run_def start_def init_def on_step_def fetch_disabled_def fetchVariables_def
        fetchVariables_settle_def data_variables_def)

section \<open>A code-generation call that fails\<close>

text \<open>
  C3, as stated, fails twice: a call that returns an empty text does produce a stored
  section, and after a rejected call no notice has been shown (the \<open>catch\<close> block
  only writes to the console).
\<close>

theorem empty_text_stored_counterexample:
  "generatedContent (app (run (Some ''k'') ''f''
       [SetTopic ''t'', ClickFetch,
        SuggestionSettles (Json (Some [\<lparr>name = ''co2'', label = ''a'', role = Y\<rparr>])),
        ClickConfirm, ClickMethod ''m'' ''c'', GenerationSettles 0 (GenResolved (Some []))]))
     basic = [\<lparr>title = ''m'', code = Some [], explanation = ''Generated code for m.''\<rparr>] \<and>
   alerts (app (run (Some ''k'') ''f''
       [SetTopic ''t'', ClickFetch,
        SuggestionSettles (Json (Some [\<lparr>name = ''co2'', label = ''a'', role = Y\<rparr>])),
        ClickConfirm, ClickMethod ''m'' ''c'', GenerationSettles 0 GenRejected])) = []"
  by (simp add: run_def start_def init_def on_step_def fetch_disabled_def fetchVariables_def
        fetchVariables_settle_def data_variables_def generateStataCode_def
        generateStataCode_settle_def newSection_def)

text \<open>
  C3, amended. For every code-generation call that fails by throwing (transport error
  or error response), no section is appended: the store of every category is what it
  was. A call that returns a text is not a failure, whatever the text: also for the
  empty text a section holding it is put in front of the list of the call's category.
\<close>

theorem rejected_generation_stores_nothing:
  "generatedContent (generateStataCode_settle st call GenRejected) = generatedContent st \<and>
   generatedContent (generateStataCode_settle st call (GenResolved (Some returned))) (tab call) =
     newSection (methodName call) (Some returned) # generatedContent st (tab call) \<and>
   code (hd (generatedContent (generateStataCode_settle st call (GenResolved (Some []))) (tab call)))
     = Some []"
  by (simp add: generateStataCode_settle_def newSection_def)

section \<open>Busy indicator and state after an exchange\<close>

text \<open>
  C4, as stated, fails: the specification counts an empty response among the failures
  of a generation call, and after a generation call that returned the empty text the
  store is not what it was before the call started.
\<close>

theorem empty_reply_changes_state_counterexample:
  "internal (app (run (Some ''k'') ''f''
       [SetTopic ''t'', ClickFetch,
        SuggestionSettles (Json (Some [\<lparr>name = ''co2'', label = ''a'', role = Y\<rparr>])),
        ClickConfirm, ClickMethod ''m'' ''c'', GenerationSettles 0 (GenResolved (Some []))]))
   \<noteq>
   internal (app (run (Some ''k'') ''f''
       [SetTopic ''t'', ClickFetch,
        SuggestionSettles (Json (Some [\<lparr>name = ''co2'', label = ''a'', role = Y\<rparr>])),
        ClickConfirm]))"
proof
  assume "internal (app (run (Some ''k'') ''f''
       [SetTopic ''t'', ClickFetch,
        SuggestionSettles (Json (Some [\<lparr>name = ''co2'', label = ''a'', role = Y\<rparr>])),
        ClickConfirm, ClickMethod ''m'' ''c'', GenerationSettles 0 (GenResolved (Some []))]))
   =
   internal (app (run (Some ''k'') ''f''
       [SetTopic ''t'', ClickFetch,
        SuggestionSettles (Json (Some [\<lparr>name = ''co2'', label = ''a'', role = Y\<rparr>])),
        ClickConfirm]))"
  then have "generatedContent (app (run (Some ''k'') ''f''
       [SetTopic ''t'', ClickFetch,
        SuggestionSettles (Json (Some [\<lparr>name = ''co2'', label = ''a'', role = Y\<rparr>])),
        ClickConfirm, ClickMethod ''m'' ''c'', GenerationSettles 0 (GenResolved (Some []))])) basic
   =
   generatedContent (app (run (Some ''k'') ''f''
       [SetTopic ''t'', ClickFetch,
        SuggestionSettles (Json (Some [\<lparr>name = ''co2'', label = ''a'', role = Y\<rparr>])),
        ClickConfirm])) basic"
    by (simp add: internal_def)
  then show False
    by (simp add: run_def start_def init_def on_step_def fetch_disabled_def fetchVariables_def
          fetchVariables_settle_def data_variables_def generateStataCode_def
          generateStataCode_settle_def)
qed

text \<open>
  C4, amended. Whatever the outcome, \<open>loading\<close> is false when a suggestion or a
  generation exchange settles; it is false as well when an enabled button's call
  returns at its guard without dispatching. Starting an exchange changes nothing of
  the internal state (stage, variables, topic, field, role configuration, store), and
  neither does a failure the code treats as one: a call that throws in either
  exchange, an unparsable suggestion reply, and a suggestion reply without text or
  without a variable list; after these the internal state is what it was before the
  exchange started. A generation call that returns the empty text is not such a
  failure: its section is stored in front of the list of the call's category.
\<close>

theorem busy_cleared_and_failure_keeps_state:
  "loading (fetchVariables_settle st reply) = False \<and>
   loading (generateStataCode_settle st call greply) = False \<and>
   (\<not> fetch_disabled sk \<longrightarrow> snd (fetchVariables sk) = None \<longrightarrow>
      fst (fetchVariables sk) = sk \<and> loading sk = False) \<and>
   internal (fst (fetchVariables st)) = internal st \<and>
   internal (fst (generateStataCode st method subType)) = internal st \<and>
   internal (fetchVariables_settle st Rejected) = internal st \<and>
   internal (fetchVariables_settle st Unparsable) = internal st \<and>
   internal (fetchVariables_settle st NoText) = internal st \<and>
   internal (fetchVariables_settle st (Json None)) = internal st \<and>
   internal (generateStataCode_settle st call GenRejected) = internal st \<and>
   ((\<forall>vs. reply \<noteq> Json (Some vs)) \<longrightarrow>
      internal (fetchVariables_settle (fst (fetchVariables st)) reply) = internal st) \<and>
   internal (generateStataCode_settle (fst (generateStataCode st method subType))
      (snd (generateStataCode st method subType)) GenRejected) = internal st \<and>
   generatedContent (generateStataCode_settle st call (GenResolved (Some []))) (tab call) =
     newSection (methodName call) (Some []) # generatedContent st (tab call)"
  by (simp add: fetchVariables_def fetchVariables_settle_def data_variables_def
        generateStataCode_def generateStataCode_settle_def internal_def fetch_disabled_def
        split: generation_reply.splits suggestion_reply.splits option.splits)

theorem busy_cleared_and_failure_keeps_state_witness:
  "\<not> fetch_disabled ((init None ''f'')\<lparr>topic := ''t''\<rparr>) \<and>
   snd (fetchVariables ((init None ''f'')\<lparr>topic := ''t''\<rparr>)) = None \<and>
   fst (fetchVariables ((init None ''f'')\<lparr>topic := ''t''\<rparr>)) = (init None ''f'')\<lparr>topic := ''t''\<rparr> \<and>
   loading ((init None ''f'')\<lparr>topic := ''t''\<rparr>) = False \<and>
   snd (fetchVariables ((init (Some ''k'') ''f'')\<lparr>topic := ''t''\<rparr>)) \<noteq> None \<and>
   loading (fst (fetchVariables ((init (Some ''k'') ''f'')\<lparr>topic := ''t''\<rparr>))) = True \<and>
   (\<forall>vs. Rejected \<noteq> Json (Some vs)) \<and>
   loading (fetchVariables_settle
      (fst (fetchVariables ((init (Some ''k'') ''f'')\<lparr>topic := ''t''\<rparr>))) Rejected) = False \<and>
   internal (fetchVariables_settle
      (fst (fetchVariables ((init (Some ''k'') ''f'')\<lparr>topic := ''t''\<rparr>))) Rejected) =
     internal ((init (Some ''k'') ''f'')\<lparr>topic := ''t''\<rparr>) \<and>
   loading (generateStataCode_settle
      (fst (generateStataCode ((init (Some ''k'') ''f'')\<lparr>topic := ''t''\<rparr>) ''m'' ''c''))
      (snd (generateStataCode ((init (Some ''k'') ''f'')\<lparr>topic := ''t''\<rparr>) ''m'' ''c''))
      GenRejected) = False \<and>
   internal (generateStataCode_settle
      (fst (generateStataCode ((init (Some ''k'') ''f'')\<lparr>topic := ''t''\<rparr>) ''m'' ''c''))
      (snd (generateStataCode ((init (Some ''k'') ''f'')\<lparr>topic := ''t''\<rparr>) ''m'' ''c''))
      GenRejected) =
     internal ((init (Some ''k'') ''f'')\<lparr>topic := ''t''\<rparr>)"
  using busy_cleared_and_failure_keeps_state
    [of "(init (Some ''k'') ''f'')\<lparr>topic := ''t''\<rparr>" Rejected
        "snd (generateStataCode ((init (Some ''k'') ''f'')\<lparr>topic := ''t''\<rparr>) ''m'' ''c'')"
        GenRejected "(init None ''f'')\<lparr>topic := ''t''\<rparr>" "''m''" "''c''"]
  by (simp add: init_def fetch_disabled_def fetchVariables_def fetchVariables_settle_def
        data_variables_def generateStataCode_def generateStataCode_settle_def internal_def)

section \<open>What the busy indicator gates\<close>

text \<open>
  C5, as stated, fails: there is one indicator, \<open>loading\<close>, for both kinds of call,
  and a generation call is issued while it is true. After a first method button the
  indicator is true with one call outstanding; a second method button dispatches a
  second call all the same.
\<close>

theorem generation_not_gated_counterexample:
  "loading (app (run (Some ''k'') ''f''
       [SetTopic ''t'', ClickFetch,
        SuggestionSettles (Json (Some [\<lparr>name = ''co2'', label = ''a'', role = Y\<rparr>])),
        ClickConfirm, ClickMethod ''m'' ''c''])) \<and>
   length (pendingGenerations (run (Some ''k'') ''f''
       [SetTopic ''t'', ClickFetch,
        SuggestionSettles (Json (Some [\<lparr>name = ''co2'', label = ''a'', role = Y\<rparr>])),
        ClickConfirm, ClickMethod ''m'' ''c''])) = 1 \<and>
   length (pendingGenerations (run (Some ''k'') ''f''
       [SetTopic ''t'', ClickFetch,
        SuggestionSettles (Json (Some [\<lparr>name = ''co2'', label = ''a'', role = Y\<rparr>])),
        ClickConfirm, ClickMethod ''m'' ''c'', ClickMethod ''m'' ''c''])) = 2"
  by (simp add: run_def start_def init_def on_step_def fetch_disabled_def fetchVariables_def
        fetchVariables_settle_def data_variables_def generateStataCode_def)

text \<open>
  C5, amended. Both kinds of external call share the one busy indicator \<open>loading\<close>:
  each sets it when it dispatches a call. A variable-suggestion call is never issued
  while the indicator is true: its button is disabled then and leaves the system as
  it is. Editing a variable and choosing a tab do not consult the indicator.
\<close>

theorem one_shared_busy_indicator:
  "(loading (app s) \<longrightarrow> fire s ClickFetch = s) \<and>
   (snd (fetchVariables st) \<noteq> None \<longrightarrow> loading (fst (fetchVariables st))) \<and>
   loading (fst (generateStataCode st method subType)) \<and>
   variables (app (fire s (EditName r idx t))) =
     (if step (app s) = VariableReview then edit_name r idx t (variables (app s))
      else variables (app s)) \<and>
   variables (app (fire s (EditLabel r idx t))) =
     (if step (app s) = VariableReview then edit_label r idx t (variables (app s))
      else variables (app s)) \<and>
   activeTab (app (fire s (SetActiveTab c))) =
     (if step (app s) = Workbench then c else activeTab (app s))"
  by (simp add: fetch_disabled_def fetchVariables_def generateStataCode_def on_step_def)

theorem one_shared_busy_indicator_witness:
  "loading (app ((start (Some ''k'') ''f'')\<lparr>app := (init (Some ''k'') ''f'')
       \<lparr>topic := ''t'', loading := True\<rparr>\<rparr>)) \<and>
   fire ((start (Some ''k'') ''f'')\<lparr>app := (init (Some ''k'') ''f'')
       \<lparr>topic := ''t'', loading := True\<rparr>\<rparr>) ClickFetch =
     (start (Some ''k'') ''f'')\<lparr>app := (init (Some ''k'') ''f'')
       \<lparr>topic := ''t'', loading := True\<rparr>\<rparr> \<and>
   snd (fetchVariables ((init (Some ''k'') ''f'')\<lparr>topic := ''t''\<rparr>)) \<noteq> None \<and>
   loading (fst (fetchVariables ((init (Some ''k'') ''f'')\<lparr>topic := ''t''\<rparr>)))"
  using one_shared_busy_indicator
    [of "(start (Some ''k'') ''f'')\<lparr>app := (init (Some ''k'') ''f'')
           \<lparr>topic := ''t'', loading := True\<rparr>\<rparr>"
        "(init (Some ''k'') ''f'')\<lparr>topic := ''t''\<rparr>"]
  by (simp add: start_def init_def fetchVariables_def)

section \<open>A code-generation call that succeeds\<close>

lemma fire_store_grows:
  "\<exists>added. generatedContent (app (fire s e)) c = added @ generatedContent (app s) c"
proof (cases e)
  case (GenerationSettles i greply)
  show ?thesis
  proof (cases greply)
    case GenRejected
    then show ?thesis
      using GenerationSettles by (simp add: generateStataCode_settle_def)
  next
    case (GenResolved returned)
    have "\<exists>added. generatedContent
             (generateStataCode_settle (app s) (pendingGenerations s ! i) (GenResolved returned)) c =
           added @ generatedContent (app s) c"
      by (cases "c = tab (pendingGenerations s ! i)")
         (simp_all add: generateStataCode_settle_def)
    then show ?thesis
      using GenerationSettles GenResolved by simp
  qed
qed (simp_all add: on_step_def fetchVariables_def fetchVariables_settle_def
       data_variables_def generateStataCode_def
       split: suggestion_reply.splits option.splits sum.splits)

lemma events_store_grows:
  "\<exists>added. generatedContent (app (foldl fire s es)) c = added @ generatedContent (app s) c"
proof (induction es rule: rev_induct)
  case Nil
  show ?case by simp
next
  case (snoc e es)
  then obtain before where
    b: "generatedContent (app (foldl fire s es)) c = before @ generatedContent (app s) c"
    by blast
  obtain new where
    "generatedContent (app (fire (foldl fire s es) e)) c =
       new @ generatedContent (app (foldl fire s es)) c"
    using fire_store_grows [of "foldl fire s es" e c] by blast
  then have "generatedContent (app (foldl fire s (es @ [e]))) c =
               (new @ before) @ generatedContent (app s) c"
    using b by simp
  then show ?case by blast
qed

text \<open>
  C7. A generation call remembers the method name and the tab that is active when it
  is made. When it returns, the result is wrapped as a section whose title is the
  method name and whose code is the returned text, and the section is put in front of
  the list of that tab. Two calls in a row for the same method on the same tab leave
  two entries in front of the former list, the later one at index 0, also when both
  returned the same text. No event of the system removes or merges entries: the list
  of every category after any sequence of events ends with the list before it.
\<close>

theorem successful_generation_prepends:
  "methodName (snd (generateStataCode st method subType)) = method \<and>
   tab (snd (generateStataCode st method subType)) = activeTab st \<and>
   generatedContent (generateStataCode_settle st call (GenResolved returned)) (tab call) =
     \<lparr>title = methodName call, code = returned,
      explanation = ''Generated code for '' @ methodName call @ ''.''\<rparr>
     # generatedContent st (tab call) \<and>
   (let (st1, call1) = generateStataCode st method subType;
        st2 = generateStataCode_settle st1 call1 (GenResolved first);
        (st3, call2) = generateStataCode st2 method subType;
        st4 = generateStataCode_settle st3 call2 (GenResolved second)
    in generatedContent st4 (activeTab st)) =
     [newSection method second, newSection method first] @ generatedContent st (activeTab st) \<and>
   (\<exists>added. generatedContent (app (foldl fire s es)) c = added @ generatedContent (app s) c)"
  using events_store_grows [of s es c]
  by (simp add: generateStataCode_def generateStataCode_settle_def newSection_def)

theorem successful_generation_prepends_witness:
  "generatedContent
     (generateStataCode_settle (init (Some ''k'') ''f'')
        (snd (generateStataCode (init (Some ''k'') ''f'') ''m'' ''c'')) (GenResolved (Some ''reg y x'')))
     basic =
   [\<lparr>title = ''m'', code = Some ''reg y x'', explanation = ''Generated code for m.''\<rparr>]"
  using successful_generation_prepends
    [of "init (Some ''k'') ''f''" "''m''" "''c''"
        "snd (generateStataCode (init (Some ''k'') ''f'') ''m'' ''c'')" "Some ''reg y x''"]
  by (simp add: init_def generateStataCode_def)

section \<open>What a successful generation leaves alone\<close>

text \<open>
  C10. A successful generation call changes, in the store, only the list of the
  category it was made for (the active tab of that moment): the list of every other
  category is unchanged, and so are the stage, the topic, the field, the role
  configuration and the variables, from before the call to after its result is
  stored. The same holds for the settling alone, whatever the state it settles in.
\<close>

theorem successful_generation_frame:
  "(c \<noteq> activeTab st \<longrightarrow>
      generatedContent
        (generateStataCode_settle (fst (generateStataCode st method subType))
           (snd (generateStataCode st method subType)) (GenResolved returned)) c =
      generatedContent st c) \<and>
   (c \<noteq> tab call \<longrightarrow>
      generatedContent (generateStataCode_settle st' call (GenResolved returned)) c =
      generatedContent st' c) \<and>
   (let after = generateStataCode_settle (fst (generateStataCode st method subType))
                  (snd (generateStataCode st method subType)) (GenResolved returned)
    in (step after, topic after, field after, variables after, activeTab after,
        controlCount after, feCount after, mechCount after, heteroCount after)) =
     (step st, topic st, field st, variables st, activeTab st,
      controlCount st, feCount st, mechCount st, heteroCount st) \<and>
   (let after = generateStataCode_settle st' call (GenResolved returned)
    in (step after, topic after, field after, variables after, activeTab after,
        controlCount after, feCount after, mechCount after, heteroCount after)) =
     (step st', topic st', field st', variables st', activeTab st',
      controlCount st', feCount st', mechCount st', heteroCount st')"
  by (simp add: generateStataCode_def generateStataCode_settle_def)

theorem successful_generation_frame_witness:
  "robust \<noteq> activeTab (init (Some ''k'') ''f'') \<and>
   generatedContent
     (generateStataCode_settle (fst (generateStataCode (init (Some ''k'') ''f'') ''m'' ''c''))
        (snd (generateStataCode (init (Some ''k'') ''f'') ''m'' ''c'')) (GenResolved (Some ''reg y x'')))
     robust = [] \<and>
   length (generatedContent
     (generateStataCode_settle (fst (generateStataCode (init (Some ''k'') ''f'') ''m'' ''c''))
        (snd (generateStataCode (init (Some ''k'') ''f'') ''m'' ''c'')) (GenResolved (Some ''reg y x'')))
     basic) = 1"
  using successful_generation_frame
    [of robust "init (Some ''k'') ''f''" "''m''" "''c''" "Some ''reg y x''"]
  by (simp add: init_def generateStataCode_def generateStataCode_settle_def)

end
